theory Spec2Isabelle
  imports Main "HOL-Library.Sublist"
begin

section \<open>Campus Event Hub: data model\<close>

text \<open>
  JavaScript objects with a known set of keys are records. Where the code tells
  \<^verbatim>\<open>null\<close> from \<^verbatim>\<open>undefined\<close> on a key, by a strict comparison or in a template
  literal, the field is a \<open>jsval\<close> (the \<^verbatim>\<open>organizer\<close> and the \<^verbatim>\<open>title\<close> of an event).
  Any other key that may be missing is an \<open>option\<close> field, \<open>None\<close> for a key that is
  missing or holds \<^verbatim>\<open>null\<close>. Times are natural numbers, document ids are strings.
\<close>

datatype jsval = Undefined | Null | Str string

text \<open>Reading a key that an object does not have gives \<^verbatim>\<open>undefined\<close>.\<close>

definition read_key :: "string option \<Rightarrow> jsval" where
  "read_key v = (case v of None \<Rightarrow> Undefined | Some x \<Rightarrow> Str x)"

text \<open>
  \<^verbatim>\<open>req.user\<close>: either the decoded token payload \<^verbatim>\<open>{id, email, role, iat, exp}\<close> or the
  synthetic \<^verbatim>\<open>{ role: 'guest' }\<close>, which has no other key: in this record \<open>None\<close> is
  a key the object does not have.
\<close>

record req_user =
  user_id :: "string option"
  email :: "string option"
  role :: "string option"
  iat :: "nat option"
  exp :: "nat option"

text \<open>
  A document of the \<^verbatim>\<open>users\<close> collection. The same keys make up the body of the
  registration request and the \<^verbatim>\<open>userData\<close> handed to the user service (there without
  \<^verbatim>\<open>_id\<close> and time stamps). \<open>password\<close> holds the clear text in a request and the
  bcrypt hash in a stored document.
\<close>

record user =
  u_id :: "string option"
  name :: "string option"
  u_email :: "string option"
  password :: "string option"
  u_role :: "string option"
  studentId :: "string option"
  u_createdAt :: "nat option"
  u_updatedAt :: "nat option"

text \<open>\<^verbatim>\<open>AppError(message, statusCode)\<close> and its subclass \<^verbatim>\<open>DatabaseError(message)\<close>.\<close>

datatype app_error = AppError string nat | DatabaseError string

fun statusCode :: "app_error \<Rightarrow> nat" where
  "statusCode (AppError _ n) = n"
| "statusCode (DatabaseError _) = 500"

fun message :: "app_error \<Rightarrow> string" where
  "message (AppError m _) = m"
| "message (DatabaseError m) = m"

text \<open>JavaScript truthiness of an optional string: absent and \<^verbatim>\<open>''\<close> are falsy.\<close>

definition truthy :: "string option \<Rightarrow> bool" where
  "truthy v = (case v of None \<Rightarrow> False | Some s \<Rightarrow> s \<noteq> [])"

text \<open>What a middleware or a handler sends: \<^verbatim>\<open>res.status(n).json({message})\<close>,
  \<^verbatim>\<open>res.status(n).json({message, user})\<close>,
  \<^verbatim>\<open>res.status(n).render(view, {message})\<close>, \<^verbatim>\<open>res.redirect(url)\<close>.\<close>

datatype response =
    Json nat string
  | JsonUser nat string user
  | Render nat string string
  | Redirect string

fun status :: "response \<Rightarrow> nat" where
  "status (Json n _) = n"
| "status (JsonUser n _ _) = n"
| "status (Render n _ _) = n"
| "status (Redirect _) = 302"

text \<open>Events as the event routes and the event service read and write them.\<close>

record event =
  e_id :: "string option"
  title :: jsval
  description :: "string option"
  date :: "string option"
  time :: "string option"
  location :: "string option"
  organizer :: jsval
  createdBy :: "string option"
  createdAt :: "nat option"
  updatedAt :: "nat option"

text \<open>Documents of the \<^verbatim>\<open>registrations\<close> and \<^verbatim>\<open>feedback\<close> collections.\<close>

record registration =
  r_id :: "string option"
  studentEmail :: "string option"
  eventId :: "string option"
  studentName :: "string option"
  r_studentId :: "string option"
  registeredAt :: "nat option"
  userType :: "string option"
  paymentStatus :: "string option"

record feedback =
  f_id :: "string option"
  f_studentName :: "string option"
  f_studentEmail :: "string option"
  f_eventId :: "string option"
  rating :: "int option"
  comment :: "string option"
  submittedAt :: "nat option"

text \<open>A line of a winston logger: the service of the logger, the level, the message.\<close>

datatype level = LInfo | LWarn | LError

type_synonym log_entry = "string \<times> level \<times> string"

text \<open>A message handed to the mail transport (recipient and subject; the markup body
  is left out).\<close>

record mail =
  mail_to :: "string option"
  subject :: string

text \<open>
  The state the services work on: the three collections of the event service, the
  in-memory cache (its per-event entries, by key), whether the mail transporter has
  been created, the messages the transport accepted, and the log.
\<close>

record app_state =
  events :: "event list"
  registrations :: "registration list"
  feedbacks :: "feedback list"
  cache :: "string \<rightharpoonup> event"
  transporter :: bool
  outbox :: "mail list"
  logs :: "log_entry list"

text \<open>
  A request as the event routes read it: the \<^verbatim>\<open>Authorization\<close> header, the path,
  \<^verbatim>\<open>req.params.eventId\<close>, the form fields of \<^verbatim>\<open>req.body\<close> that describe an event, and
  \<^verbatim>\<open>req.user\<close> once a middleware has set it.
\<close>

record request =
  authorization :: "string option"
  req_path :: string
  params_eventId :: string
  req_body :: event
  req_usr :: "req_user option"

section \<open>Role and ownership checks\<close>

text \<open>\<^verbatim>\<open>{ role: 'guest' }\<close>\<close>

definition guest :: req_user where
  "guest = \<lparr>user_id = None, email = None, role = Some ''guest'', iat = None, exp = None\<rparr>"

text \<open>\<^verbatim>\<open>roles.join(sep)\<close>\<close>

fun join :: "string \<Rightarrow> string list \<Rightarrow> string" where
  "join sep [] = []"
| "join sep [x] = x"
| "join sep (x # y # ys) = x @ sep @ join sep (y # ys)"

text \<open>\<^verbatim>\<open>roles.includes(req.user.role)\<close>: an absent role equals no string.\<close>

definition roles_includes :: "string list \<Rightarrow> string option \<Rightarrow> bool" where
  "roles_includes roles r = (case r of None \<Rightarrow> False | Some x \<Rightarrow> x \<in> set roles)"

text \<open>
  \<^verbatim>\<open>requireRole(roles)\<close> as a function of the request path and \<^verbatim>\<open>req.user\<close>. \<open>Inl\<close> is
  the response the middleware sends itself; \<open>Inr\<close> is \<^verbatim>\<open>next()\<close>, with the
  \<^verbatim>\<open>req.user\<close> it leaves on the request.
\<close>

definition requireRole :: "string list \<Rightarrow> string \<Rightarrow> req_user option \<Rightarrow> response + req_user" where
  "requireRole roles path ru =
     (let user = (case ru of None \<Rightarrow> guest | Some u \<Rightarrow> u) in
      if role user = Some ''guest'' then
        (if \<not> roles_includes roles (Some ''guest'') then
           (if prefix ''/api/'' path then Inl (Json 401 ''Authentication required'')
            else Inl (Render 401 ''error'' ''Authentication required to access this page''))
         else Inr user)
      else if \<not> roles_includes roles (role user) then
        (if prefix ''/api/'' path then Inl (Json 403 ''Insufficient permissions'')
         else Inl (Render 403 ''error''
                (''Access denied. This action requires '' @ join '' or '' roles @ '' permissions.'')))
      else Inr user)"

text \<open>
  The ownership verification of the edit and delete actions:
  \<^verbatim>\<open>if (req.user.role !== 'admin' && event.organizer !== req.user.email) return res.status(403)...\<close>
  The strict comparison holds two strings equal when they are the same string, and
  \<^verbatim>\<open>null\<close>, \<^verbatim>\<open>undefined\<close> and a string pairwise different.
\<close>

definition verifyOwnership :: "req_user \<Rightarrow> event \<Rightarrow> response + unit" where
  "verifyOwnership user ev =
     (if role user \<noteq> Some ''admin'' \<and> organizer ev \<noteq> read_key (email user)
      then Inl (Render 403 ''error'' ''Access denied. You can only edit your own events.'')
      else Inr ())"

text \<open>The same check as the repository's RBAC test script computes it.\<close>

definition testOwnershipVerification :: "req_user \<Rightarrow> event \<Rightarrow> bool" where
  "testOwnershipVerification user testEvent =
     (if role user = Some ''admin'' then True
      else read_key (email user) = organizer testEvent)"

text \<open>
  The access decision of a route: the role middleware, then, where the action is
  ownership-sensitive, the ownership verification on the event read for it.
\<close>

datatype decision = ALLOW | DENY response

definition evaluate :: "string list \<Rightarrow> string \<Rightarrow> req_user option \<Rightarrow> event option \<Rightarrow> decision" where
  "evaluate roles path ru ownership =
     (case requireRole roles path ru of
        Inl resp \<Rightarrow> DENY resp
      | Inr user \<Rightarrow>
          (case ownership of
             None \<Rightarrow> ALLOW
           | Some ev \<Rightarrow>
               (case verifyOwnership user ev of Inl resp \<Rightarrow> DENY resp | Inr _ \<Rightarrow> ALLOW)))"

section \<open>Tokens\<close>

text \<open>
  Modelled from the spec: the \<^verbatim>\<open>jsonwebtoken\<close> library (\<^verbatim>\<open>jwt.sign\<close>, \<^verbatim>\<open>jwt.verify\<close>) is
  a dependency and not part of the sources. Following the Token Codec of the
  specification, a token is either a string that is no token at all or a payload with
  a signature, and decoding fails as malformed, as wrongly signed or as expired. The
  signature is a keyed function \<open>mac\<close> of the secret and the payload, left open.
\<close>

datatype jwt_error = JsonWebTokenError string | TokenExpiredError

datatype token = Malformed string | Signed req_user string

text \<open>
  Modelled from the spec: \<^verbatim>\<open>jwt.sign(payload, secret, {expiresIn})\<close> at time \<open>now\<close>
  encodes the payload with the issue time and an expiry \<open>expiresIn\<close> seconds later,
  and signs it with the secret.
\<close>

definition jwt_sign ::
  "(string \<Rightarrow> req_user \<Rightarrow> string) \<Rightarrow> nat \<Rightarrow> req_user \<Rightarrow> string \<Rightarrow> nat \<Rightarrow> token" where
  "jwt_sign mac now payload secret expiresIn =
     (let claims = payload\<lparr>iat := Some now, exp := Some (now + expiresIn)\<rparr>
      in Signed claims (mac secret claims))"

text \<open>
  Modelled from the spec: \<^verbatim>\<open>jwt.verify(token, secret)\<close> at time \<open>now\<close> throws on a
  malformed token, on a signature that is not the one of the secret, and from the
  expiry instant on; otherwise it returns the payload.
\<close>

definition jwt_verify ::
  "(string \<Rightarrow> req_user \<Rightarrow> string) \<Rightarrow> nat \<Rightarrow> token \<Rightarrow> string \<Rightarrow> jwt_error + req_user" where
  "jwt_verify mac now tok secret =
     (case tok of
        Malformed _ \<Rightarrow> Inl (JsonWebTokenError ''jwt malformed'')
      | Signed claims sig \<Rightarrow>
          if sig \<noteq> mac secret claims then Inl (JsonWebTokenError ''invalid signature'')
          else (case exp claims of
                  None \<Rightarrow> Inr claims
                | Some e \<Rightarrow> if e \<le> now then Inl TokenExpiredError else Inr claims))"

text \<open>\<^verbatim>\<open>const JWT_SECRET = process.env.JWT_SECRET || 'campus_event_hub_secret_key'\<close>, as a
  function of the environment variable.\<close>

definition JWT_SECRET :: "string option \<Rightarrow> string" where
  "JWT_SECRET env = (case env of None \<Rightarrow> ''campus_event_hub_secret_key''
                     | Some s \<Rightarrow> if s = [] then ''campus_event_hub_secret_key'' else s)"

text \<open>
  \<^verbatim>\<open>userService.verifyToken\<close>. The library's \<^verbatim>\<open>jwt.verify\<close> is the parameter
  \<open>verify\<close>, for any representation \<open>'tok\<close> of tokens; whatever it throws becomes the
  same \<^verbatim>\<open>AppError\<close>.
\<close>

definition verifyToken ::
  "('tok \<Rightarrow> string \<Rightarrow> jwt_error + req_user) \<Rightarrow> string option \<Rightarrow> 'tok \<Rightarrow> app_error + req_user" where
  "verifyToken verify env tok =
     (case verify tok (JWT_SECRET env) of
        Inl _ \<Rightarrow> Inl (AppError ''Invalid or expired token'' 401)
      | Inr decoded \<Rightarrow> Inr decoded)"

section \<open>Authentication middleware\<close>

text \<open>\<^verbatim>\<open>s.split(' ')\<close>: the pieces between the separators, empty pieces included.\<close>

fun split :: "char \<Rightarrow> string \<Rightarrow> string list" where
  "split c [] = [[]]"
| "split c (x # xs) =
     (if x = c then [] # split c xs
      else (case split c xs of [] \<Rightarrow> [[x]] | w # ws \<Rightarrow> (x # w) # ws))"

text \<open>\<^verbatim>\<open>const token = authHeader && authHeader.split(' ')[1]\<close>, the header being
  \<^verbatim>\<open>req.headers['authorization']\<close>.\<close>

definition bearer_token :: "string option \<Rightarrow> string option" where
  "bearer_token authHeader =
     (case authHeader of
        None \<Rightarrow> None
      | Some h \<Rightarrow> if h = [] then Some []
                  else (case split CHR '' '' h of _ # t # _ \<Rightarrow> Some t | _ \<Rightarrow> None))"

text \<open>
  The middlewares return \<open>Inl\<close> of the response they send themselves, or \<open>Inr\<close> of the
  \<^verbatim>\<open>req.user\<close> they set when they call \<^verbatim>\<open>next()\<close>.

  \<^verbatim>\<open>isAuthenticated\<close> (the authentication middleware module):
\<close>

definition isAuthenticated ::
  "(string \<Rightarrow> string \<Rightarrow> jwt_error + req_user) \<Rightarrow> string option \<Rightarrow> string option
     \<Rightarrow> response + req_user" where
  "isAuthenticated verify env authHeader =
     (let token = bearer_token authHeader in
      if truthy token then
        (case token of
           None \<Rightarrow> Inr guest
         | Some t \<Rightarrow>
             (case verifyToken verify env t of
                Inr decoded \<Rightarrow> Inr decoded
              | Inl _ \<Rightarrow> Inr guest))
      else Inr guest)"

text \<open>\<^verbatim>\<open>authenticateToken\<close> of the authentication router, in front of its
  \<^verbatim>\<open>GET /profile\<close>:\<close>

definition authenticateToken ::
  "(string \<Rightarrow> string \<Rightarrow> jwt_error + req_user) \<Rightarrow> string option \<Rightarrow> string option
     \<Rightarrow> response + req_user" where
  "authenticateToken verify env authHeader =
     (let token = bearer_token authHeader in
      if \<not> truthy token then Inl (Json 401 ''Access token required'')
      else
        (case token of
           None \<Rightarrow> Inl (Json 401 ''Access token required'')
         | Some t \<Rightarrow>
             (case verifyToken verify env t of
                Inr decoded \<Rightarrow> Inr decoded
              | Inl _ \<Rightarrow> Inl (Json 403 ''Invalid or expired token''))))"

text \<open>
  \<^verbatim>\<open>authenticateToken\<close> as the RBAC document gives it for the server's routes: it
  leaves \<^verbatim>\<open>req.user = null\<close> (\<open>None\<close>) where there is no valid token and always calls
  \<^verbatim>\<open>next()\<close>; \<^verbatim>\<open>requireRole\<close> then reads \<^verbatim>\<open>null\<close> as the guest.
\<close>

definition authenticateToken_rbac ::
  "(string \<Rightarrow> string \<Rightarrow> jwt_error + req_user) \<Rightarrow> string option \<Rightarrow> string option
     \<Rightarrow> response + req_user option" where
  "authenticateToken_rbac verify env authHeader =
     (let token = bearer_token authHeader in
      if \<not> truthy token then Inr None
      else
        (case token of
           None \<Rightarrow> Inr None
         | Some t \<Rightarrow>
             (case verify t (JWT_SECRET env) of
                Inl _ \<Rightarrow> Inr None
              | Inr user \<Rightarrow> Inr (Some user))))"

section \<open>User service\<close>

text \<open>
  The \<^verbatim>\<open>users\<close> collection is the list of its documents. \<^verbatim>\<open>findOne({email})\<close> is the
  first document with that email; \<^verbatim>\<open>insertOne\<close> appends the document under the
  \<^verbatim>\<open>_id\<close> the store generates (\<open>newId\<close>) and returns that id. Failures of the store
  itself are not modelled. \<^verbatim>\<open>bcrypt.hash\<close> and \<^verbatim>\<open>bcrypt.compare\<close> are parameters; both
  throw on a missing argument. \<^verbatim>\<open>new Date()\<close> is \<open>now\<close>.
\<close>

definition register ::
  "(string \<Rightarrow> string) \<Rightarrow> nat \<Rightarrow> string \<Rightarrow> user \<Rightarrow> user list \<Rightarrow> (app_error + user) \<times> user list" where
  "register bcrypt_hash now newId userData users =
     (case find (\<lambda>u. u_email u = u_email userData) users of
        Some existingUser \<Rightarrow> (Inl (AppError ''User with this email already exists'' 409), users)
      | None \<Rightarrow>
          (case password userData of
             None \<Rightarrow> (Inl (DatabaseError ''Failed to register user''), users)
           | Some pw \<Rightarrow>
               let hashedPassword = bcrypt_hash pw;
                   user = \<lparr>u_id = None,
                           name = name userData,
                           u_email = u_email userData,
                           password = Some hashedPassword,
                           u_role = (if truthy (u_role userData) then u_role userData
                                     else Some ''student''),
                           studentId = (if u_role userData = Some ''student''
                                        then studentId userData else None),
                           u_createdAt = Some now,
                           u_updatedAt = Some now\<rparr>;
                   insertedId = newId;
                   stored = user\<lparr>u_id := Some insertedId\<rparr>;
                   userWithoutPassword = stored\<lparr>password := None\<rparr>
               in (Inr (userWithoutPassword\<lparr>u_id := Some insertedId\<rparr>), users @ [stored])))"

text \<open>\<^verbatim>\<open>login\<close>; \<open>sign\<close> is \<^verbatim>\<open>jwt.sign\<close>, \<^verbatim>\<open>'24h'\<close> is 86400 seconds.\<close>

definition login ::
  "(string \<Rightarrow> string \<Rightarrow> bool) \<Rightarrow> (req_user \<Rightarrow> string \<Rightarrow> nat \<Rightarrow> 'tok) \<Rightarrow> string option
     \<Rightarrow> user list \<Rightarrow> string option \<Rightarrow> string option \<Rightarrow> app_error + ('tok \<times> user)" where
  "login bcrypt_compare sign env users email_in password_in =
     (case find (\<lambda>u. u_email u = email_in) users of
        None \<Rightarrow> Inl (AppError ''Invalid credentials'' 401)
      | Some user \<Rightarrow>
          (case (password_in, password user) of
             (Some pw, Some hashed) \<Rightarrow>
               if \<not> bcrypt_compare pw hashed then Inl (AppError ''Invalid credentials'' 401)
               else
                 let token = sign \<lparr>user_id = u_id user, email = u_email user,
                                    role = u_role user, iat = None, exp = None\<rparr>
                                  (JWT_SECRET env) 86400
                 in Inr (token, user\<lparr>password := None\<rparr>)
           | _ \<Rightarrow> Inl (DatabaseError ''Failed to login user'')))"

text \<open>\<^verbatim>\<open>getUserById\<close>; \<open>isValid\<close> is \<^verbatim>\<open>ObjectId.isValid\<close>.\<close>

definition getUserById :: "(string \<Rightarrow> bool) \<Rightarrow> user list \<Rightarrow> string \<Rightarrow> app_error + user" where
  "getUserById isValid users userId =
     (if \<not> isValid userId then Inl (AppError ''Invalid user ID'' 400)
      else
        (case find (\<lambda>u. u_id u = Some userId) users of
           None \<Rightarrow> Inl (AppError ''User not found'' 404)
         | Some user \<Rightarrow> Inr (user\<lparr>password := None\<rparr>)))"

definition getUserByEmail :: "user list \<Rightarrow> string option \<Rightarrow> app_error + user" where
  "getUserByEmail users email_in =
     (case find (\<lambda>u. u_email u = email_in) users of
        None \<Rightarrow> Inl (AppError ''User not found'' 404)
      | Some user \<Rightarrow> Inr (user\<lparr>password := None\<rparr>))"

text \<open>\<^verbatim>\<open>getAllUsers(filters)\<close>, the filter being \<^verbatim>\<open>filters.role\<close>.\<close>

definition getAllUsers :: "user list \<Rightarrow> string option \<Rightarrow> user list" where
  "getAllUsers users filters_role =
     (let found = (if truthy filters_role then filter (\<lambda>u. u_role u = filters_role) users
                   else users)
      in map (\<lambda>user. user\<lparr>password := None\<rparr>) found)"

section \<open>Registration endpoint\<close>

definition validRoles :: "string list" where
  "validRoles = [''student'', ''organizer'']"

text \<open>\<^verbatim>\<open>POST /register\<close> of the authentication router (\<^verbatim>\<open>/api/auth/register\<close>): the
  response and the \<^verbatim>\<open>users\<close> collection after it.\<close>

definition register_route ::
  "(string \<Rightarrow> string) \<Rightarrow> nat \<Rightarrow> string \<Rightarrow> user \<Rightarrow> user list \<Rightarrow> response \<times> user list" where
  "register_route bcrypt_hash now newId body users =
     (if \<not> truthy (name body) \<or> \<not> truthy (u_email body) \<or> \<not> truthy (password body)
      then (Json 400 ''Name, email, and password are required'', users)
      else if truthy (u_role body) \<and> \<not> roles_includes validRoles (u_role body)
      then (Json 400 ''Invalid role. Must be student or organizer'', users)
      else if u_role body = Some ''student'' \<and> \<not> truthy (studentId body)
      then (Json 400 ''Student ID is required for student accounts'', users)
      else
        let userData = \<lparr>u_id = None,
                        name = name body,
                        u_email = u_email body,
                        password = password body,
                        u_role = (if truthy (u_role body) then u_role body else Some ''student''),
                        studentId = (if u_role body = Some ''student'' then studentId body
                                     else None),
                        u_createdAt = None,
                        u_updatedAt = None\<rparr>
        in (case register bcrypt_hash now newId userData users of
              (Inr user, users') \<Rightarrow> (JsonUser 201 ''User registered successfully'' user, users')
            | (Inl error, users') \<Rightarrow> (Json (statusCode error) (message error), users')))"

section \<open>Cache and mail\<close>

text \<open>
  The cache manager over the in-memory cache, which is connected from construction on.
  Entries leave the cache by \<^verbatim>\<open>del\<close>, by \<^verbatim>\<open>flush\<close> and by their timers; the timers are
  not modelled, the theorems hold for every content of the cache.
\<close>

definition cache_get :: "string \<Rightarrow> app_state \<Rightarrow> event option" where
  "cache_get key s = cache s key"

definition cache_set :: "string \<Rightarrow> event \<Rightarrow> app_state \<Rightarrow> app_state" where
  "cache_set key v s = s\<lparr>cache := (cache s)(key \<mapsto> v)\<rparr>"

definition cache_del :: "string \<Rightarrow> app_state \<Rightarrow> app_state" where
  "cache_del key s = s\<lparr>cache := (cache s)(key := None)\<rparr>"

definition cache_flush :: "app_state \<Rightarrow> app_state" where
  "cache_flush s = s\<lparr>cache := Map.empty\<rparr>"

definition logger :: "string \<Rightarrow> level \<Rightarrow> string \<Rightarrow> app_state \<Rightarrow> app_state" where
  "logger service lvl msg s = s\<lparr>logs := logs s @ [(service, lvl, msg)]\<rparr>"

text \<open>A value in a template literal: \<^verbatim>\<open>undefined\<close> and \<^verbatim>\<open>null\<close> print as their
  names.\<close>

definition interpolate :: "jsval \<Rightarrow> string" where
  "interpolate v = (case v of Undefined \<Rightarrow> ''undefined'' | Null \<Rightarrow> ''null'' | Str x \<Rightarrow> x)"

text \<open>
  \<^verbatim>\<open>sendEmailNotification\<close>. The transport is the parameter \<open>smtp\<close>: it accepts a message
  (\<open>True\<close>) or \<^verbatim>\<open>verify\<close>/\<^verbatim>\<open>sendMail\<close> throws (\<open>False\<close>). \<open>Inl ()\<close> is the error thrown
  on to the caller. The preview line logged outside production is left out.
\<close>

definition sendEmailNotification ::
  "(mail \<Rightarrow> bool) \<Rightarrow> string option \<Rightarrow> string \<Rightarrow> app_state \<Rightarrow> (unit + unit) \<times> app_state" where
  "sendEmailNotification smtp to subj s =
     (if \<not> transporter s
      then (Inr (), logger ''email-service'' LWarn ''Email transporter not initialized'' s)
      else
        let mailOptions = \<lparr>mail_to = to, subject = subj\<rparr> in
        if smtp mailOptions
        then (Inr (), logger ''email-service'' LInfo ''Email sent successfully''
                        (s\<lparr>outbox := outbox s @ [mailOptions]\<rparr>))
        else (Inl (), logger ''email-service'' LError ''Error sending email:'' s))"

definition sendRegistrationConfirmation ::
  "(mail \<Rightarrow> bool) \<Rightarrow> string option \<Rightarrow> event \<Rightarrow> app_state \<Rightarrow> (unit + unit) \<times> app_state" where
  "sendRegistrationConfirmation smtp student_email ev s =
     (let subj = ''Registration Confirmed: '' @ interpolate (title ev) in
      case sendEmailNotification smtp student_email subj s of
        (Inr _, s') \<Rightarrow>
          (Inr (), logger ''email-service'' LInfo ''Registration confirmation email sent'' s')
      | (Inl _, s') \<Rightarrow>
          (Inl (), logger ''email-service'' LError
                     ''Error sending registration confirmation email:'' s'))"

section \<open>Event service\<close>

text \<open>
  The collections are the lists of their documents. \<^verbatim>\<open>findOne\<close> is the first match,
  \<^verbatim>\<open>updateOne\<close> and \<^verbatim>\<open>deleteOne\<close> change or remove the first match, \<^verbatim>\<open>deleteMany\<close>
  removes every match, \<^verbatim>\<open>insertOne\<close> appends the document under the \<^verbatim>\<open>_id\<close> the store
  generates (\<open>newId\<close>). No document is matched (\<^verbatim>\<open>matchedCount\<close>, \<^verbatim>\<open>deletedCount\<close> of 0)
  exactly when \<open>find\<close> is \<open>None\<close>. A query value that is absent matches a document in
  which the key is absent. Failures of the store itself are not modelled.
\<close>

fun updateOne :: "('a \<Rightarrow> bool) \<Rightarrow> ('a \<Rightarrow> 'a) \<Rightarrow> 'a list \<Rightarrow> 'a list" where
  "updateOne P f [] = []"
| "updateOne P f (x # xs) = (if P x then f x # xs else x # updateOne P f xs)"

fun deleteOne :: "('a \<Rightarrow> bool) \<Rightarrow> 'a list \<Rightarrow> 'a list" where
  "deleteOne P [] = []"
| "deleteOne P (x # xs) = (if P x then xs else x # deleteOne P xs)"

definition deleteMany :: "('a \<Rightarrow> bool) \<Rightarrow> 'a list \<Rightarrow> 'a list" where
  "deleteMany P xs = filter (\<lambda>x. \<not> P x) xs"

text \<open>\<^verbatim>\<open>getEventById\<close>; \<open>isValid\<close> is \<^verbatim>\<open>ObjectId.isValid\<close>, false on an absent id.\<close>

definition getEventById ::
  "(string \<Rightarrow> bool) \<Rightarrow> string option \<Rightarrow> app_state \<Rightarrow> (app_error + event) \<times> app_state" where
  "getEventById isValid eid s =
     (case eid of
        None \<Rightarrow> (Inl (AppError ''Invalid event ID'' 400), s)
      | Some i \<Rightarrow>
          if \<not> isValid i then (Inl (AppError ''Invalid event ID'' 400), s)
          else
            let cacheKey = ''event_'' @ i in
            (case cache_get cacheKey s of
               Some ev \<Rightarrow> (Inr ev, s)
             | None \<Rightarrow>
                 (case find (\<lambda>e. e_id e = Some i) (events s) of
                    None \<Rightarrow> (Inl (AppError ''Event not found'' 404), s)
                  | Some ev \<Rightarrow> (Inr ev, cache_set cacheKey ev s))))"

text \<open>The driver writes a key whose value is \<^verbatim>\<open>undefined\<close> as \<^verbatim>\<open>null\<close>.\<close>

definition stored_value :: "jsval \<Rightarrow> jsval" where
  "stored_value v = (case v of Undefined \<Rightarrow> Null | _ \<Rightarrow> v)"

text \<open>
  \<^verbatim>\<open>updateEvent(eventId, eventData)\<close>: \<^verbatim>\<open>$set\<close> writes the keys of \<^verbatim>\<open>eventData\<close>, which
  are the five form fields its caller passes, and \<^verbatim>\<open>updatedAt\<close>.
\<close>

definition updateEvent ::
  "(string \<Rightarrow> bool) \<Rightarrow> nat \<Rightarrow> string \<Rightarrow> event \<Rightarrow> app_state \<Rightarrow> (app_error + unit) \<times> app_state" where
  "updateEvent isValid now eid eventData s =
     (if \<not> isValid eid then (Inl (AppError ''Invalid event ID'' 400), s)
      else if find (\<lambda>e. e_id e = Some eid) (events s) = None
      then (Inl (AppError ''Event not found'' 404), s)
      else
        let set_fields = (\<lambda>e. e\<lparr>title := stored_value (title eventData),
                                  description := description eventData,
                                  date := date eventData,
                                  time := time eventData,
                                  location := location eventData,
                                  updatedAt := Some now\<rparr>);
            s1 = s\<lparr>events := updateOne (\<lambda>e. e_id e = Some eid) set_fields (events s)\<rparr>;
            s2 = cache_flush (cache_del (''event_'' @ eid) s1)
        in (Inr (), logger ''event-service'' LInfo ''Event updated successfully'' s2))"

definition deleteEvent ::
  "(string \<Rightarrow> bool) \<Rightarrow> string \<Rightarrow> app_state \<Rightarrow> (app_error + unit) \<times> app_state" where
  "deleteEvent isValid eid s =
     (if \<not> isValid eid then (Inl (AppError ''Invalid event ID'' 400), s)
      else if find (\<lambda>e. e_id e = Some eid) (events s) = None
      then (Inl (AppError ''Event not found'' 404), s)
      else
        let s1 = s\<lparr>events := deleteOne (\<lambda>e. e_id e = Some eid) (events s)\<rparr>;
            s2 = cache_flush (cache_del (''event_'' @ eid) s1)
        in (Inr (), logger ''event-service'' LInfo ''Event deleted successfully'' s2))"

text \<open>
  \<^verbatim>\<open>registerForEvent(registrationData)\<close>. The inner \<^verbatim>\<open>try\<close> around the confirmation
  mail catches both a failing \<^verbatim>\<open>getEventById\<close> and a failing
  \<^verbatim>\<open>sendRegistrationConfirmation\<close>.
\<close>

definition registerForEvent ::
  "(string \<Rightarrow> bool) \<Rightarrow> (mail \<Rightarrow> bool) \<Rightarrow> nat \<Rightarrow> string \<Rightarrow> registration \<Rightarrow> app_state
     \<Rightarrow> (app_error + registration) \<times> app_state" where
  "registerForEvent isValid smtp now newId registrationData s =
     (case find (\<lambda>r. eventId r = eventId registrationData
                      \<and> studentEmail r = studentEmail registrationData) (registrations s) of
        Some existingRegistration \<Rightarrow>
          (Inl (AppError ''You have already registered for this event'' 400), s)
      | None \<Rightarrow>
          let registration = registrationData\<lparr>registeredAt := Some now\<rparr>;
              insertedId = newId;
              s1 = s\<lparr>registrations := registrations s @ [registration\<lparr>r_id := Some insertedId\<rparr>]\<rparr>;
              s2 = (case getEventById isValid (eventId registrationData) s1 of
                      (Inl emailError, s') \<Rightarrow>
                        logger ''event-service'' LError
                          ''Error sending registration confirmation email:'' s'
                    | (Inr ev, s') \<Rightarrow>
                        (case sendRegistrationConfirmation smtp
                                (studentEmail registrationData) ev s' of
                           (Inl emailError, s'') \<Rightarrow>
                             logger ''event-service'' LError
                               ''Error sending registration confirmation email:'' s''
                         | (Inr _, s'') \<Rightarrow> s''));
              s3 = logger ''event-service'' LInfo ''Event registration created'' s2
          in (Inr (registration\<lparr>r_id := Some insertedId\<rparr>), s3))"

section \<open>Event routes of the server\<close>

text \<open>
  \<^verbatim>\<open>POST /organizer/update-event/:eventId\<close>, commented ``publicly accessible'' in the
  server: no middleware stands in front of the handler, which reads the route
  parameter and the form fields only.
\<close>

definition update_event_route ::
  "(string \<Rightarrow> bool) \<Rightarrow> nat \<Rightarrow> request \<Rightarrow> app_state \<Rightarrow> response \<times> app_state" where
  "update_event_route isValid now req s =
     (let eid = params_eventId req;
          b = req_body req
      in case updateEvent isValid now eid b s of
           (Inr _, s') \<Rightarrow> (Redirect ''/organizer/my-events'', s')
         | (Inl error, s') \<Rightarrow> (Render 500 ''error'' ''Error updating event'', s'))"

text \<open>\<^verbatim>\<open>POST /organizer/delete-event/:eventId\<close>, likewise ``publicly accessible''.\<close>

definition delete_event_route ::
  "(string \<Rightarrow> bool) \<Rightarrow> request \<Rightarrow> app_state \<Rightarrow> response \<times> app_state" where
  "delete_event_route isValid req s =
     (let eid = params_eventId req
      in case deleteEvent isValid eid s of
           (Inr _, s') \<Rightarrow>
             (Redirect ''/organizer/my-events'',
              s'\<lparr>registrations := deleteMany (\<lambda>r. eventId r = Some eid) (registrations s'),
                 feedbacks := deleteMany (\<lambda>f. f_eventId f = Some eid) (feedbacks s')\<rparr>)
         | (Inl error, s') \<Rightarrow> (Render 500 ''error'' ''Error deleting event'', s'))"

text \<open>
  A route as the RBAC document registers its action routes,
  \<^verbatim>\<open>app.post(path, authenticateToken, requireRole(roles), handler)\<close>: a middleware that
  responds ends the request, and the handler runs only after both have called
  \<^verbatim>\<open>next()\<close>.
\<close>

definition guarded ::
  "(string \<Rightarrow> string \<Rightarrow> jwt_error + req_user) \<Rightarrow> string option \<Rightarrow> string list
     \<Rightarrow> (request \<Rightarrow> app_state \<Rightarrow> response \<times> app_state)
     \<Rightarrow> request \<Rightarrow> app_state \<Rightarrow> response \<times> app_state" where
  "guarded verify env roles handler req s =
     (case authenticateToken_rbac verify env (authorization req) of
        Inl resp \<Rightarrow> (resp, s)
      | Inr ru \<Rightarrow>
          (case requireRole roles (req_path req) ru of
             Inl resp \<Rightarrow> (resp, s)
           | Inr u \<Rightarrow> handler (req\<lparr>req_usr := Some u\<rparr>) s))"

section \<open>Test data\<close>

text \<open>
  \<^verbatim>\<open>ObjectId.isValid\<close> belongs to the database driver and is a parameter of the
  services. On strings, every version of it accepts the 24 hexadecimal digits of an
  id; the examples below take this predicate for it.
\<close>

definition hexString24 :: "string \<Rightarrow> bool" where
  "hexString24 i = (length i = 24 \<and> list_all (\<lambda>c. c \<in> set ''0123456789abcdefABCDEF'') i)"

text \<open>The users and the event of the repository's RBAC test script, the event under an
  id of 24 hexadecimal digits, and a state and a request built on them.\<close>

definition testUsers_organizer :: req_user where
  "testUsers_organizer = \<lparr>user_id = Some ''organizer123'', email = Some ''organizer@example.com'',
                           role = Some ''organizer'', iat = None, exp = None\<rparr>"

definition testUsers_otherOrganizer :: req_user where
  "testUsers_otherOrganizer = \<lparr>user_id = None, email = Some ''other@example.com'',
                                role = Some ''organizer'', iat = None, exp = None\<rparr>"

definition testUsers_student :: req_user where
  "testUsers_student = \<lparr>user_id = Some ''student123'', email = Some ''student@example.com'',
                         role = Some ''student'', iat = None, exp = None\<rparr>"

definition testEvent :: event where
  "testEvent = \<lparr>e_id = Some ''507f1f77bcf86cd799439011'', title = Str ''Test Event'',
                 description = None, date = None, time = None, location = None,
                 organizer = Str ''organizer@example.com'', createdBy = None,
                 createdAt = None, updatedAt = None\<rparr>"

definition testState :: app_state where
  "testState = \<lparr>events = [testEvent], registrations = [], feedbacks = [],
                 cache = Map.empty, transporter = True, outbox = [], logs = []\<rparr>"

definition testRequest :: request where
  "testRequest = \<lparr>authorization = None,
                   req_path = ''/organizer/delete-event/507f1f77bcf86cd799439011'',
                   params_eventId = ''507f1f77bcf86cd799439011'',
                   req_body = testEvent\<lparr>title := Str ''Changed''\<rparr>, req_usr = None\<rparr>"

definition testRegistration :: registration where
  "testRegistration = \<lparr>r_id = None, studentEmail = Some ''student@example.com'',
                        eventId = Some ''507f1f77bcf86cd799439011'',
                        studentName = Some ''Student'',
                        r_studentId = Some ''STU123456'', registeredAt = None,
                        userType = None, paymentStatus = None\<rparr>"

definition testAccount :: user where
  "testAccount = \<lparr>u_id = Some ''student123'', name = Some ''John Doe'',
                   u_email = Some ''john@example.com'', password = Some ''hash'',
                   u_role = Some ''student'', studentId = Some ''STU123456'',
                   u_createdAt = None, u_updatedAt = None\<rparr>"

text \<open>The registration request of the API document, without \<^verbatim>\<open>role\<close> and without
  \<^verbatim>\<open>studentId\<close>.\<close>

definition testBody :: user where
  "testBody = \<lparr>u_id = None, name = Some ''John Doe'', u_email = Some ''john@example.com'',
                password = Some ''password123'', u_role = None, studentId = None,
                u_createdAt = None, u_updatedAt = None\<rparr>"

section \<open>Theorems\<close>

subsection \<open>Auxiliary facts\<close>

lemma roles_includes_iff: "roles_includes roles r \<longleftrightarrow> r \<in> Some ` set roles"
  by (cases r) (auto simp: roles_includes_def)

lemma logger_simps [simp]:
  "logs (logger a b c s) = logs s @ [(a, b, c)]"
  "registrations (logger a b c s) = registrations s"
  "events (logger a b c s) = events s"
  "feedbacks (logger a b c s) = feedbacks s"
  "outbox (logger a b c s) = outbox s"
  "cache (logger a b c s) = cache s"
  "transporter (logger a b c s) = transporter s"
  by (simp_all add: logger_def)

lemma find_split:
  "find P xs = Some x \<Longrightarrow> \<exists>ys zs. xs = ys @ x # zs \<and> (\<forall>y \<in> set ys. \<not> P y) \<and> P x"
proof (induction xs)
  case Nil
  then show ?case by simp
next
  case (Cons a xs)
  show ?case
  proof (cases "P a")
    case True
    with Cons.prems have "a = x" by simp
    with True have "a # xs = [] @ x # xs \<and> (\<forall>y \<in> set []. \<not> P y) \<and> P x" by simp
    then show ?thesis by blast
  next
    case False
    with Cons.prems have "find P xs = Some x" by simp
    with Cons.IH obtain ys zs where "xs = ys @ x # zs" "\<forall>y \<in> set ys. \<not> P y" "P x"
      by blast
    with False have "a # xs = (a # ys) @ x # zs \<and> (\<forall>y \<in> set (a # ys). \<not> P y) \<and> P x"
      by simp
    then show ?thesis by blast
  qed
qed

lemma deleteOne_split:
  "(\<forall>y \<in> set ys. \<not> P y) \<Longrightarrow> P x \<Longrightarrow> deleteOne P (ys @ x # zs) = ys @ zs"
  by (induction ys) auto

lemma updateOne_split:
  "(\<forall>y \<in> set ys. \<not> P y) \<Longrightarrow> P x \<Longrightarrow> updateOne P f (ys @ x # zs) = ys @ f x # zs"
  by (induction ys) auto

lemma hexString24_testId: "hexString24 ''507f1f77bcf86cd799439011''"
  by (simp add: hexString24_def)

lemma jwt_roundtrip:
  "jwt_verify mac t (jwt_sign mac t0 payload secret n) secret =
     (if t0 + n \<le> t then Inl TokenExpiredError
      else Inr (payload\<lparr>iat := Some t0, exp := Some (t0 + n)\<rparr>))"
  by (simp add: jwt_verify_def jwt_sign_def Let_def)

lemma bearer_token_example: "bearer_token (Some ''Bearer abc'') = Some ''abc''"
  by (simp add: bearer_token_def)

lemma getEventById_domain:
  "getEventById isValid eid s = (res, s') \<Longrightarrow>
     events s' = events s \<and> registrations s' = registrations s \<and> feedbacks s' = feedbacks s
     \<and> outbox s' = outbox s \<and> logs s' = logs s \<and> transporter s' = transporter s"
  by (auto simp: getEventById_def cache_get_def cache_set_def Let_def
           split: option.splits if_splits)

lemma sendRegistrationConfirmation_domain:
  "sendRegistrationConfirmation smtp to ev s = (res, s') \<Longrightarrow>
     events s' = events s \<and> registrations s' = registrations s \<and> feedbacks s' = feedbacks s"
  by (auto simp: sendRegistrationConfirmation_def sendEmailNotification_def Let_def
           split: if_splits)

lemma sendRegistrationConfirmation_sent:
  "sendRegistrationConfirmation smtp to ev s = (Inr u, s') \<Longrightarrow>
     (\<exists>m. outbox s' = outbox s @ [m] \<and> smtp m)
     \<or> (\<not> transporter s
         \<and> (''email-service'', LWarn, ''Email transporter not initialized'') \<in> set (logs s'))"
  by (auto simp: sendRegistrationConfirmation_def sendEmailNotification_def Let_def
           split: if_splits)

lemma registerForEvent_duplicate:
  assumes "find (\<lambda>r. eventId r = eventId rd \<and> studentEmail r = studentEmail rd)
             (registrations s) = Some x"
  shows "registerForEvent isValid smtp now newId rd s =
           (Inl (AppError ''You have already registered for this event'' 400), s)"
  using assms by (simp add: registerForEvent_def)

lemma registerForEvent_fresh:
  assumes "find (\<lambda>r. eventId r = eventId rd \<and> studentEmail r = studentEmail rd)
             (registrations s) = None"
  shows "\<exists>s'. registerForEvent isValid smtp now newId rd s
                  = (Inr (rd\<lparr>registeredAt := Some now, r_id := Some newId\<rparr>), s')
              \<and> registrations s'
                  = registrations s @ [rd\<lparr>registeredAt := Some now, r_id := Some newId\<rparr>]
              \<and> events s' = events s \<and> feedbacks s' = feedbacks s
              \<and> ((\<exists>m. outbox s' = outbox s @ [m] \<and> smtp m)
                  \<or> (''event-service'', LError,
                       ''Error sending registration confirmation email:'') \<in> set (logs s')
                  \<or> (\<not> transporter s
                      \<and> (''email-service'', LWarn, ''Email transporter not initialized'')
                            \<in> set (logs s')))"
proof -
  let ?stored = "rd\<lparr>registeredAt := Some now, r_id := Some newId\<rparr>"
  let ?s1 = "s\<lparr>registrations := registrations s @ [?stored]\<rparr>"
  obtain res1 s1 where g: "getEventById isValid (eventId rd) ?s1 = (res1, s1)"
    by (cases "getEventById isValid (eventId rd) ?s1")
  note gd = getEventById_domain[OF g]
  show ?thesis
  proof (cases res1)
    case (Inl e)
    with assms g gd show ?thesis
      by (simp add: registerForEvent_def Let_def)
  next
    case (Inr ev)
    obtain res2 s2 where m: "sendRegistrationConfirmation smtp (studentEmail rd) ev s1 = (res2, s2)"
      by (cases "sendRegistrationConfirmation smtp (studentEmail rd) ev s1")
    note md = sendRegistrationConfirmation_domain[OF m]
    show ?thesis
    proof (cases res2)
      case (Inl e2)
      with assms g gd Inr m md show ?thesis
        by (simp add: registerForEvent_def Let_def)
    next
      case r2: (Inr u2)
      from sendRegistrationConfirmation_sent[OF m[unfolded r2]] gd
      have "(\<exists>m. outbox s2 = outbox s @ [m] \<and> smtp m)
         \<or> (\<not> transporter s
             \<and> (''email-service'', LWarn, ''Email transporter not initialized'') \<in> set (logs s2))"
        by simp
      with assms g gd Inr m md r2 show ?thesis
        by (auto simp: registerForEvent_def Let_def)
    qed
  qed
qed

lemma testState_delete:
  "delete_event_route hexString24 testRequest testState =
     (Redirect ''/organizer/my-events'',
      testState\<lparr>events := [],
                 logs := [(''event-service'', LInfo, ''Event deleted successfully'')]\<rparr>)"
  by (simp add: delete_event_route_def deleteEvent_def testRequest_def testState_def
        testEvent_def cache_flush_def cache_del_def deleteMany_def logger_def Let_def
        hexString24_testId)

lemma testState_register:
  "registerForEvent hexString24 (\<lambda>m. False) 5 ''r1'' testRegistration testState =
     (Inr (testRegistration\<lparr>registeredAt := Some 5, r_id := Some ''r1''\<rparr>),
      testState\<lparr>registrations := [testRegistration\<lparr>registeredAt := Some 5, r_id := Some ''r1''\<rparr>],
                 cache := [''event_507f1f77bcf86cd799439011'' \<mapsto> testEvent],
                 logs := [(''email-service'', LError, ''Error sending email:''),
                          (''email-service'', LError,
                             ''Error sending registration confirmation email:''),
                          (''event-service'', LError,
                             ''Error sending registration confirmation email:''),
                          (''event-service'', LInfo, ''Event registration created'')]\<rparr>)"
  by (simp add: registerForEvent_def getEventById_def sendRegistrationConfirmation_def
        sendEmailNotification_def cache_get_def cache_set_def logger_def interpolate_def
        testRegistration_def testState_def testEvent_def Let_def hexString24_testId)

subsection \<open>C1: a denied request and the domain state\<close>

text \<open>
  C1, as amended. Behind the middleware chain of the RBAC document
  (\<^verbatim>\<open>authenticateToken, requireRole(roles)\<close>) a request on which the role decision is DENY
  gets the response of that decision and nothing else happens: the handler is not run,
  the state (collections, mail, log) is the one before. The event update and delete
  routes of the server are not behind that chain. What they do depends neither on the
  \<^verbatim>\<open>Authorization\<close> header nor on \<^verbatim>\<open>req.user\<close>: whenever the event id is valid and
  names a stored event, both redirect; delete leaves the \<^verbatim>\<open>events\<close> collection without
  the first event of that id, every other event in its place, and the registrations
  and the feedback without the documents of that event; update leaves the collection
  with that event carrying the five form fields of the request and the new
  \<^verbatim>\<open>updatedAt\<close>, every other event as it was.
\<close>

theorem deny_behind_middleware_only:
  "(\<forall>ru resp. authenticateToken_rbac verify env (authorization req) = Inr ru
        \<and> evaluate roles (req_path req) ru None = DENY resp
      \<longrightarrow> guarded verify env roles handler req s = (resp, s))
   \<and> delete_event_route isValid (req\<lparr>authorization := a, req_usr := u\<rparr>) s
       = delete_event_route isValid req s
   \<and> update_event_route isValid now (req\<lparr>authorization := a, req_usr := u\<rparr>) s
       = update_event_route isValid now req s
   \<and> (\<forall>ev. isValid (params_eventId req)
          \<and> find (\<lambda>e. e_id e = Some (params_eventId req)) (events s) = Some ev
      \<longrightarrow> (\<exists>xs ys. events s = xs @ ev # ys
             \<and> (\<forall>e \<in> set xs. e_id e \<noteq> Some (params_eventId req))
             \<and> fst (delete_event_route isValid req s) = Redirect ''/organizer/my-events''
             \<and> events (snd (delete_event_route isValid req s)) = xs @ ys
             \<and> registrations (snd (delete_event_route isValid req s))
                 = filter (\<lambda>r. eventId r \<noteq> Some (params_eventId req)) (registrations s)
             \<and> feedbacks (snd (delete_event_route isValid req s))
                 = filter (\<lambda>f. f_eventId f \<noteq> Some (params_eventId req)) (feedbacks s)
             \<and> fst (update_event_route isValid now req s) = Redirect ''/organizer/my-events''
             \<and> events (snd (update_event_route isValid now req s))
                 = xs @ ev\<lparr>title := stored_value (title (req_body req)),
                             description := description (req_body req),
                             date := date (req_body req),
                             time := time (req_body req),
                             location := location (req_body req),
                             updatedAt := Some now\<rparr> # ys
             \<and> registrations (snd (update_event_route isValid now req s)) = registrations s
             \<and> feedbacks (snd (update_event_route isValid now req s)) = feedbacks s))"
proof (intro conjI allI impI)
  fix ru resp
  assume "authenticateToken_rbac verify env (authorization req) = Inr ru
        \<and> evaluate roles (req_path req) ru None = DENY resp"
  then show "guarded verify env roles handler req s = (resp, s)"
    by (auto simp: guarded_def evaluate_def split: sum.splits)
next
  show "delete_event_route isValid (req\<lparr>authorization := a, req_usr := u\<rparr>) s
       = delete_event_route isValid req s"
    by (simp add: delete_event_route_def)
next
  show "update_event_route isValid now (req\<lparr>authorization := a, req_usr := u\<rparr>) s
       = update_event_route isValid now req s"
    by (simp add: update_event_route_def)
next
  fix ev
  let ?P = "\<lambda>e. e_id e = Some (params_eventId req)"
  assume h: "isValid (params_eventId req) \<and> find ?P (events s) = Some ev"
  then have f: "find ?P (events s) = Some ev" and v: "isValid (params_eventId req)"
    by simp_all
  from find_split[OF f] obtain xs ys
    where sp: "events s = xs @ ev # ys" and no: "\<forall>y \<in> set xs. \<not> ?P y" and yes: "?P ev"
    by blast
  have d: "deleteOne ?P (events s) = xs @ ys"
    unfolding sp using no yes by (rule deleteOne_split)
  have up: "updateOne ?P g (events s) = xs @ g ev # ys" for g
    unfolding sp using no yes by (rule updateOne_split)
  have 1: "fst (delete_event_route isValid req s) = Redirect ''/organizer/my-events''"
    using f v by (simp add: delete_event_route_def deleteEvent_def Let_def)
  have 2: "events (snd (delete_event_route isValid req s)) = xs @ ys"
    using f v d by (simp add: delete_event_route_def deleteEvent_def Let_def cache_flush_def
                      cache_del_def)
  have 3: "registrations (snd (delete_event_route isValid req s))
             = filter (\<lambda>r. eventId r \<noteq> Some (params_eventId req)) (registrations s)"
    using f v by (simp add: delete_event_route_def deleteEvent_def Let_def cache_flush_def
                    cache_del_def deleteMany_def)
  have 4: "feedbacks (snd (delete_event_route isValid req s))
             = filter (\<lambda>f. f_eventId f \<noteq> Some (params_eventId req)) (feedbacks s)"
    using f v by (simp add: delete_event_route_def deleteEvent_def Let_def cache_flush_def
                    cache_del_def deleteMany_def)
  have 5: "fst (update_event_route isValid now req s) = Redirect ''/organizer/my-events''"
    using f v by (simp add: update_event_route_def updateEvent_def Let_def)
  have 6: "events (snd (update_event_route isValid now req s))
             = xs @ ev\<lparr>title := stored_value (title (req_body req)),
                         description := description (req_body req),
                         date := date (req_body req),
                         time := time (req_body req),
                         location := location (req_body req),
                         updatedAt := Some now\<rparr> # ys"
    using f v by (simp add: update_event_route_def updateEvent_def Let_def cache_flush_def
                    cache_del_def up)
  have 7: "registrations (snd (update_event_route isValid now req s)) = registrations s"
    using f v by (simp add: update_event_route_def updateEvent_def Let_def cache_flush_def
                    cache_del_def)
  have 8: "feedbacks (snd (update_event_route isValid now req s)) = feedbacks s"
    using f v by (simp add: update_event_route_def updateEvent_def Let_def cache_flush_def
                    cache_del_def)
  from sp no 1 2 3 4 5 6 7 8
  show "\<exists>xs ys. events s = xs @ ev # ys
             \<and> (\<forall>e \<in> set xs. e_id e \<noteq> Some (params_eventId req))
             \<and> fst (delete_event_route isValid req s) = Redirect ''/organizer/my-events''
             \<and> events (snd (delete_event_route isValid req s)) = xs @ ys
             \<and> registrations (snd (delete_event_route isValid req s))
                 = filter (\<lambda>r. eventId r \<noteq> Some (params_eventId req)) (registrations s)
             \<and> feedbacks (snd (delete_event_route isValid req s))
                 = filter (\<lambda>f. f_eventId f \<noteq> Some (params_eventId req)) (feedbacks s)
             \<and> fst (update_event_route isValid now req s) = Redirect ''/organizer/my-events''
             \<and> events (snd (update_event_route isValid now req s))
                 = xs @ ev\<lparr>title := stored_value (title (req_body req)),
                             description := description (req_body req),
                             date := date (req_body req),
                             time := time (req_body req),
                             location := location (req_body req),
                             updatedAt := Some now\<rparr> # ys
             \<and> registrations (snd (update_event_route isValid now req s)) = registrations s
             \<and> feedbacks (snd (update_event_route isValid now req s)) = feedbacks s"
    by (intro exI[of _ xs] exI[of _ ys]) simp
qed

text \<open>The theorem at the test request, which carries no token and names the test event
  by its id of 24 hexadecimal digits: behind the chain the delete handler is not run;
  as the server registers it, it leaves no event.\<close>

theorem deny_behind_middleware_only_witness:
  "guarded (\<lambda>t k. Inl TokenExpiredError) None [''organizer'', ''admin'']
      (delete_event_route hexString24) testRequest testState
     = (Render 401 ''error'' ''Authentication required to access this page'', testState)
   \<and> events testState = [testEvent]
   \<and> events (snd (delete_event_route hexString24 testRequest testState)) = []"
proof -
  have h1: "authenticateToken_rbac (\<lambda>t k. Inl TokenExpiredError) None (authorization testRequest)
              = Inr None
            \<and> evaluate [''organizer'', ''admin''] (req_path testRequest) None None
              = DENY (Render 401 ''error'' ''Authentication required to access this page'')"
    by (simp add: authenticateToken_rbac_def bearer_token_def truthy_def testRequest_def
          evaluate_def requireRole_def guest_def roles_includes_def)
  have h2: "hexString24 (params_eventId testRequest)
            \<and> find (\<lambda>e. e_id e = Some (params_eventId testRequest)) (events testState)
              = Some testEvent"
    by (simp add: testRequest_def testState_def testEvent_def hexString24_testId)
  have ev: "events testState = [testEvent]"
    by (simp add: testState_def)
  note t = deny_behind_middleware_only[where verify = "\<lambda>t k. Inl TokenExpiredError"
      and env = None and req = testRequest and roles = "[''organizer'', ''admin'']"
      and handler = "delete_event_route hexString24" and s = testState
      and isValid = hexString24]
  note c1 = t[THEN conjunct1, rule_format, OF h1]
  from t[THEN conjunct2, THEN conjunct2, THEN conjunct2, rule_format, OF h2]
  obtain xs ys where "events testState = xs @ testEvent # ys"
    and "events (snd (delete_event_route hexString24 testRequest testState)) = xs @ ys"
    by blast
  with ev have c2: "events (snd (delete_event_route hexString24 testRequest testState)) = []"
    by (cases xs) simp_all
  from c1 ev c2 show ?thesis by (intro conjI)
qed

text \<open>
  C1 as stated fails on the server's routes. The test request carries no token, so the
  decision for the roles of the route is DENY (401); its event id is one that
  \<^verbatim>\<open>ObjectId.isValid\<close> accepts and names the stored event. The delete route empties the
  \<^verbatim>\<open>events\<close> collection all the same, and the update route rewrites the event.
\<close>

theorem public_event_routes_mutate_on_deny:
  "evaluate [''organizer'', ''admin''] (req_path testRequest) None None
     = DENY (Render 401 ''error'' ''Authentication required to access this page'')
   \<and> params_eventId testRequest = ''507f1f77bcf86cd799439011''
   \<and> hexString24 (params_eventId testRequest)
   \<and> events testState = [testEvent]
   \<and> delete_event_route hexString24 testRequest testState
       = (Redirect ''/organizer/my-events'',
          testState\<lparr>events := [],
                     logs := [(''event-service'', LInfo, ''Event deleted successfully'')]\<rparr>)
   \<and> fst (update_event_route hexString24 7 testRequest testState)
       = Redirect ''/organizer/my-events''
   \<and> events (snd (update_event_route hexString24 7 testRequest testState))
       = [testEvent\<lparr>title := Str ''Changed'', updatedAt := Some 7\<rparr>]"
  by (simp add: evaluate_def requireRole_def guest_def roles_includes_def testRequest_def
        testState_def testEvent_def delete_event_route_def deleteEvent_def deleteMany_def
        update_event_route_def updateEvent_def cache_flush_def cache_del_def logger_def
        stored_value_def hexString24_testId Let_def)

subsection \<open>C2: the ownership gate\<close>

text \<open>
  C2. A requester who is not the guest, whose role is among the required roles and
  whose token carries an email meets the ownership verification of an event: the
  role \<^verbatim>\<open>admin\<close> (the one bypass role of the code) is allowed whatever the organizer of
  the event; any other role is allowed exactly when the \<^verbatim>\<open>organizer\<close> recorded on the
  event is a string and the same string as the email of the requester, and is
  otherwise denied with status 403 and the ownership message, also when the event has
  no organizer or \<^verbatim>\<open>null\<close> for it. The requester's id plays no part, and the decision
  is the one the RBAC test script computes.
\<close>

theorem ownership_gate:
  assumes "role u \<noteq> Some ''guest''" and "role u \<in> Some ` set roles" and "email u = Some e"
  shows "evaluate roles path (Some u) (Some ev) =
           (if role u = Some ''admin'' then ALLOW
            else if organizer ev = Str e then ALLOW
            else DENY (Render 403 ''error'' ''Access denied. You can only edit your own events.''))
       \<and> evaluate roles path (Some (u\<lparr>user_id := i\<rparr>)) (Some ev)
           = evaluate roles path (Some u) (Some ev)
       \<and> (evaluate roles path (Some u) (Some ev) = ALLOW) = testOwnershipVerification u ev"
proof -
  from assms(1,2) have r: "requireRole roles path (Some u) = Inr u"
    and r': "requireRole roles path (Some (u\<lparr>user_id := i\<rparr>)) = Inr (u\<lparr>user_id := i\<rparr>)"
    by (simp_all add: requireRole_def roles_includes_iff)
  from assms(3) have k: "read_key (email u) = Str e"
    by (simp add: read_key_def)
  have 1: "evaluate roles path (Some u) (Some ev) =
           (if role u = Some ''admin'' then ALLOW
            else if organizer ev = Str e then ALLOW
            else DENY (Render 403 ''error'' ''Access denied. You can only edit your own events.''))"
    using r k by (simp add: evaluate_def verifyOwnership_def)
  have 2: "evaluate roles path (Some (u\<lparr>user_id := i\<rparr>)) (Some ev)
           = evaluate roles path (Some u) (Some ev)"
    using r r' by (simp add: evaluate_def verifyOwnership_def)
  have 3: "(evaluate roles path (Some u) (Some ev) = ALLOW) = testOwnershipVerification u ev"
    using 1 k by (auto simp: testOwnershipVerification_def)
  from 1 2 3 show ?thesis by (intro conjI)
qed

text \<open>The other organizer of the test script is denied on the test event, its own
  organizer is allowed, and nobody but an admin is allowed on an event whose organizer
  is \<^verbatim>\<open>null\<close>.\<close>

theorem ownership_gate_witness:
  "evaluate [''organizer'', ''admin''] ''/organizer/update-event/507f1f77bcf86cd799439011''
      (Some testUsers_otherOrganizer) (Some testEvent)
     = DENY (Render 403 ''error'' ''Access denied. You can only edit your own events.'')
   \<and> evaluate [''organizer'', ''admin''] ''/organizer/update-event/507f1f77bcf86cd799439011''
      (Some testUsers_organizer) (Some testEvent) = ALLOW
   \<and> evaluate [''organizer'', ''admin''] ''/organizer/update-event/507f1f77bcf86cd799439011''
      (Some testUsers_organizer) (Some (testEvent\<lparr>organizer := Null\<rparr>))
     = DENY (Render 403 ''error'' ''Access denied. You can only edit your own events.'')"
proof -
  have a: "role testUsers_otherOrganizer \<noteq> Some ''guest''"
    and b: "role testUsers_otherOrganizer \<in> Some ` set [''organizer'', ''admin'']"
    and c: "email testUsers_otherOrganizer = Some ''other@example.com''"
    and d: "role testUsers_organizer \<noteq> Some ''guest''"
    and e: "role testUsers_organizer \<in> Some ` set [''organizer'', ''admin'']"
    and f: "email testUsers_organizer = Some ''organizer@example.com''"
    by (simp_all add: testUsers_otherOrganizer_def testUsers_organizer_def)
  note t1 = ownership_gate[OF a b c,
      of "''/organizer/update-event/507f1f77bcf86cd799439011''" testEvent, THEN conjunct1]
  note t2 = ownership_gate[OF d e f,
      of "''/organizer/update-event/507f1f77bcf86cd799439011''" testEvent, THEN conjunct1]
  note t3 = ownership_gate[OF d e f,
      of "''/organizer/update-event/507f1f77bcf86cd799439011''"
         "testEvent\<lparr>organizer := Null\<rparr>", THEN conjunct1]
  from t1 t2 t3 show ?thesis
    by (simp add: testUsers_otherOrganizer_def testUsers_organizer_def testEvent_def)
qed

subsection \<open>C3: the guest\<close>

text \<open>
  C3. For a requester with the role \<^verbatim>\<open>guest\<close> (no \<^verbatim>\<open>req.user\<close> at all, or one with that
  role) and any list of required roles, the role middleware calls \<^verbatim>\<open>next()\<close>, and the
  decision without ownership clause is ALLOW, exactly when \<^verbatim>\<open>guest\<close> is among the
  required roles; otherwise the response has status 401 and the authentication
  message, also where the 403 of the role check would apply.
\<close>

theorem guest_role_gate:
  assumes "role (case ru of None \<Rightarrow> guest | Some u \<Rightarrow> u) = Some ''guest''"
  shows "(evaluate roles path ru None = ALLOW) = (''guest'' \<in> set roles)
       \<and> (requireRole roles path ru = Inr (case ru of None \<Rightarrow> guest | Some u \<Rightarrow> u))
           = (''guest'' \<in> set roles)
       \<and> (''guest'' \<notin> set roles \<longrightarrow>
            evaluate roles path ru None =
              DENY (if prefix ''/api/'' path then Json 401 ''Authentication required''
                    else Render 401 ''error'' ''Authentication required to access this page''))
       \<and> (''guest'' \<notin> set roles \<longrightarrow>
            (\<exists>resp. requireRole roles path ru = Inl resp \<and> status resp = 401))"
  using assms
  by (auto simp: evaluate_def requireRole_def roles_includes_def Let_def split: option.splits)

theorem guest_role_gate_witness:
  "evaluate [''student''] ''/register'' None None
     = DENY (Render 401 ''error'' ''Authentication required to access this page'')
   \<and> evaluate [''guest'', ''student''] ''/student/registrations'' None None = ALLOW"
proof -
  have g: "role (case None of None \<Rightarrow> guest | Some u \<Rightarrow> u) = Some ''guest''"
    by (simp add: guest_def)
  from guest_role_gate[OF g, of "[''student'']" "''/register''"]
       guest_role_gate[OF g, of "[''guest'', ''student'']" "''/student/registrations''"]
  show ?thesis by simp
qed

subsection \<open>C4: the role gate\<close>

text \<open>
  C4. A requester who is not the guest and whose role is not among the required roles
  is denied with status 403 and the message of the role check, with or without an
  ownership clause and whatever the event of the clause. The decision is ALLOW only
  when the role middleware has called \<^verbatim>\<open>next()\<close> and, where an ownership clause is
  given, the ownership verification has passed as well.
\<close>

theorem insufficient_role:
  assumes "role u \<noteq> Some ''guest''" and "role u \<notin> Some ` set roles"
  shows "evaluate roles path (Some u) ownership =
           DENY (if prefix ''/api/'' path then Json 403 ''Insufficient permissions''
                 else Render 403 ''error''
                   (''Access denied. This action requires '' @ join '' or '' roles
                      @ '' permissions.''))
       \<and> (\<exists>resp. evaluate roles path (Some u) ownership = DENY resp \<and> status resp = 403)
       \<and> (\<forall>ru' own'. evaluate roles path ru' own' = ALLOW \<longrightarrow>
            (\<exists>v. requireRole roles path ru' = Inr v
                 \<and> (\<forall>ev. own' = Some ev \<longrightarrow> verifyOwnership v ev = Inr ())))"
  using assms
  by (auto simp: evaluate_def requireRole_def roles_includes_iff Let_def
           split: sum.splits option.splits)

theorem insufficient_role_witness:
  "evaluate [''organizer'', ''admin''] ''/organizer/update-event/event123''
      (Some testUsers_student) (Some testEvent)
     = DENY (Render 403 ''error''
              ''Access denied. This action requires organizer or admin permissions.'')
   \<and> evaluate [''organizer'', ''admin''] ''/api/events'' (Some testUsers_student) None
     = DENY (Json 403 ''Insufficient permissions'')"
proof -
  have a: "role testUsers_student \<noteq> Some ''guest''"
    and b: "role testUsers_student \<notin> Some ` set [''organizer'', ''admin'']"
    by (simp_all add: testUsers_student_def)
  from insufficient_role[OF a b, of "''/organizer/update-event/event123''" "Some testEvent"]
       insufficient_role[OF a b, of "''/api/events''" None]
  show ?thesis by simp
qed

subsection \<open>C5: issuing and decoding a token\<close>

text \<open>
  C5. For every stored identity that logs in with its password at time \<open>t0\<close>, \<^verbatim>\<open>login\<close>
  returns a token, and \<^verbatim>\<open>verifyToken\<close> on that token at any time strictly before
  \<open>t0 + 86400\<close> (24 hours) succeeds with exactly the \<^verbatim>\<open>_id\<close>, the email and the role of
  the identity, next to the issue time and the expiry; from the expiry instant on it
  fails. Both sides use the one secret \<^verbatim>\<open>JWT_SECRET\<close>; the keyed signature function is
  arbitrary.
\<close>

theorem token_roundtrip:
  assumes "find (\<lambda>u. u_email u = e) users = Some account"
      and "password account = Some hashed"
      and "bcrypt_compare pw hashed"
      and "t < t0 + 86400"
  shows "\<exists>tok. login bcrypt_compare (jwt_sign mac t0) env users e (Some pw)
                  = Inr (tok, account\<lparr>password := None\<rparr>)
             \<and> verifyToken (jwt_verify mac t) env tok
                  = Inr \<lparr>user_id = u_id account, email = u_email account,
                         role = u_role account, iat = Some t0, exp = Some (t0 + 86400)\<rparr>
             \<and> (\<forall>t'. t0 + 86400 \<le> t' \<longrightarrow>
                   verifyToken (jwt_verify mac t') env tok
                     = Inl (AppError ''Invalid or expired token'' 401))"
  using assms by (simp add: login_def verifyToken_def jwt_roundtrip Let_def)

text \<open>The test account logs in at time 1000 and decodes its token one second before
  the expiry; the signature function here pairs the secret with the email.\<close>

theorem token_roundtrip_witness:
  "\<exists>tok. login (\<lambda>p h. p = ''secret'' \<and> h = ''hash'')
            (jwt_sign (\<lambda>k c. k @ interpolate (read_key (email c))) 1000) None [testAccount]
            (Some ''john@example.com'') (Some ''secret'')
           = Inr (tok, testAccount\<lparr>password := None\<rparr>)
        \<and> verifyToken (jwt_verify (\<lambda>k c. k @ interpolate (read_key (email c))) 87399) None tok
           = Inr \<lparr>user_id = Some ''student123'', email = Some ''john@example.com'',
                  role = Some ''student'', iat = Some 1000, exp = Some 87400\<rparr>"
proof -
  have a: "find (\<lambda>u. u_email u = Some ''john@example.com'') [testAccount] = Some testAccount"
    and b: "password testAccount = Some ''hash''"
    and c: "(\<lambda>p h. p = ''secret'' \<and> h = ''hash'') ''secret'' ''hash''"
    and d: "(87399::nat) < 1000 + 86400"
    by (simp_all add: testAccount_def)
  note t = token_roundtrip[where bcrypt_compare = "\<lambda>p h. p = ''secret'' \<and> h = ''hash''"
      and mac = "\<lambda>k c. k @ interpolate (read_key (email c))" and env = None and t = 87399 and ?t0.0 = 1000
      and users = "[testAccount]" and e = "Some ''john@example.com''" and account = testAccount
      and hashed = "''hash''" and pw = "''secret''", OF a b c d]
  then obtain tok where
    "login (\<lambda>p h. p = ''secret'' \<and> h = ''hash'')
            (jwt_sign (\<lambda>k c. k @ interpolate (read_key (email c))) 1000) None [testAccount]
            (Some ''john@example.com'') (Some ''secret'')
           = Inr (tok, testAccount\<lparr>password := None\<rparr>)
     \<and> verifyToken (jwt_verify (\<lambda>k c. k @ interpolate (read_key (email c))) 87399) None tok
           = Inr \<lparr>user_id = u_id testAccount, email = u_email testAccount,
                  role = u_role testAccount, iat = Some 1000, exp = Some (1000 + 86400)\<rparr>"
    by blast
  then show ?thesis
    by (intro exI[of _ tok]) (simp add: testAccount_def)
qed

subsection \<open>C6: normalisation of the requester\<close>

text \<open>
  C6, as amended. \<^verbatim>\<open>isAuthenticated\<close> never answers the request itself: it always calls
  \<^verbatim>\<open>next()\<close>, with the guest as \<^verbatim>\<open>req.user\<close> when the header carries no token or when
  \<^verbatim>\<open>jwt.verify\<close> fails on the token, for whatever reason, and with the decoded payload
  when it succeeds. \<^verbatim>\<open>authenticateToken\<close> of the authentication router does answer
  itself: 401 when there is no token and 403 when \<^verbatim>\<open>jwt.verify\<close> fails.
\<close>

theorem normalization_tolerant_router_strict:
  "(\<exists>u. isAuthenticated verify env h = Inr u)
   \<and> (\<not> truthy (bearer_token h) \<longrightarrow> isAuthenticated verify env h = Inr guest)
   \<and> (\<forall>t err. bearer_token h = Some t \<and> t \<noteq> [] \<and> verify t (JWT_SECRET env) = Inl err
         \<longrightarrow> isAuthenticated verify env h = Inr guest)
   \<and> (\<forall>t d. bearer_token h = Some t \<and> t \<noteq> [] \<and> verify t (JWT_SECRET env) = Inr d
         \<longrightarrow> isAuthenticated verify env h = Inr d)
   \<and> (\<not> truthy (bearer_token h)
         \<longrightarrow> authenticateToken verify env h = Inl (Json 401 ''Access token required''))
   \<and> (\<forall>t err. bearer_token h = Some t \<and> t \<noteq> [] \<and> verify t (JWT_SECRET env) = Inl err
         \<longrightarrow> authenticateToken verify env h = Inl (Json 403 ''Invalid or expired token''))"
  by (auto simp: isAuthenticated_def authenticateToken_def verifyToken_def truthy_def Let_def
           split: option.splits sum.splits)

theorem normalization_tolerant_router_strict_witness:
  "isAuthenticated (\<lambda>t k. Inl TokenExpiredError) None (Some ''Bearer abc'') = Inr guest
   \<and> isAuthenticated (\<lambda>t k. Inl TokenExpiredError) None None = Inr guest
   \<and> authenticateToken (\<lambda>t k. Inl TokenExpiredError) None (Some ''Bearer abc'')
       = Inl (Json 403 ''Invalid or expired token'')"
proof -
  have a: "bearer_token (Some ''Bearer abc'') = Some ''abc'' \<and> ''abc'' \<noteq> []
           \<and> (\<lambda>t k. Inl TokenExpiredError) ''abc'' (JWT_SECRET None) = Inl TokenExpiredError"
    by (simp add: bearer_token_example)
  have b: "\<not> truthy (bearer_token None)"
    by (simp add: bearer_token_def truthy_def)
  note t1 = normalization_tolerant_router_strict[where verify = "\<lambda>t k. Inl TokenExpiredError"
      and env = None and h = "Some ''Bearer abc''"]
  note t2 = normalization_tolerant_router_strict[where verify = "\<lambda>t k. Inl TokenExpiredError"
      and env = None and h = None]
  note c1 = t1[THEN conjunct2, THEN conjunct2, THEN conjunct1, rule_format, OF a]
  note c2 = t2[THEN conjunct2, THEN conjunct1, rule_format, OF b]
  note c3 = t1[THEN conjunct2, THEN conjunct2, THEN conjunct2, THEN conjunct2, THEN conjunct2,
      rule_format, OF a]
  from c1 c2 c3 show ?thesis by (intro conjI)
qed

text \<open>
  C6 as stated fails on the router's middleware: a request without a token, and one
  whose token has expired, are rejected by \<^verbatim>\<open>authenticateToken\<close> itself.
\<close>

theorem router_authenticateToken_rejects:
  "authenticateToken (\<lambda>t k. Inl TokenExpiredError) None None
     = Inl (Json 401 ''Access token required'')
   \<and> authenticateToken (\<lambda>t k. Inl TokenExpiredError) None (Some ''Bearer abc'')
     = Inl (Json 403 ''Invalid or expired token'')"
  by (simp add: authenticateToken_def verifyToken_def bearer_token_def truthy_def)

subsection \<open>C7: the password hash\<close>

lemma register_no_password:
  "register bcrypt_hash now newId userData users = (Inr v, users') \<Longrightarrow> password v = None"
  by (auto simp: register_def Let_def split: option.splits)

lemma login_no_password:
  "login bcrypt_compare sign env users e p = Inr (tok, v) \<Longrightarrow> password v = None"
  by (auto simp: login_def Let_def split: option.splits if_splits)

lemma register_route_no_password:
  assumes "register_route bcrypt_hash now newId b users = (JsonUser n m v, users')"
  shows "password v = None"
proof -
  let ?userData = "\<lparr>u_id = None, name = name b, u_email = u_email b, password = password b,
      u_role = (if truthy (u_role b) then u_role b else Some ''student''),
      studentId = (if u_role b = Some ''student'' then studentId b else None),
      u_createdAt = None, u_updatedAt = None\<rparr>"
  obtain res us where r: "register bcrypt_hash now newId ?userData users = (res, us)"
    by (cases "register bcrypt_hash now newId ?userData users")
  from assms r have "res = Inr v"
    by (cases res) (simp_all add: register_route_def Let_def split: if_splits)
  with r show ?thesis by (simp add: register_no_password)
qed

text \<open>
  C7. Whatever the \<^verbatim>\<open>users\<close> collection holds, the user object returned by
  \<^verbatim>\<open>register\<close>, by \<^verbatim>\<open>login\<close>, by \<^verbatim>\<open>getUserById\<close> and by \<^verbatim>\<open>getUserByEmail\<close>, every
  element of the list returned by \<^verbatim>\<open>getAllUsers\<close>, and the user in the response of the
  registration endpoint have no \<^verbatim>\<open>password\<close> key.
\<close>

theorem password_never_returned:
  "(\<forall>v users'. register bcrypt_hash now newId userData users = (Inr v, users')
       \<longrightarrow> password v = None)
   \<and> (\<forall>tok v. login bcrypt_compare sign env users e p = Inr (tok, v) \<longrightarrow> password v = None)
   \<and> (\<forall>v. getUserById isValid users userId = Inr v \<longrightarrow> password v = None)
   \<and> (\<forall>v. getUserByEmail users e = Inr v \<longrightarrow> password v = None)
   \<and> (\<forall>v \<in> set (getAllUsers users f). password v = None)
   \<and> (\<forall>n m v users'. register_route bcrypt_hash now newId b users = (JsonUser n m v, users')
       \<longrightarrow> password v = None)"
proof (intro conjI allI impI ballI)
  fix v users'
  assume "register bcrypt_hash now newId userData users = (Inr v, users')"
  then show "password v = None" by (rule register_no_password)
next
  fix tok v
  assume "login bcrypt_compare sign env users e p = Inr (tok, v)"
  then show "password v = None" by (rule login_no_password)
next
  fix v
  assume "getUserById isValid users userId = Inr v"
  then show "password v = None"
    by (auto simp: getUserById_def split: option.splits if_splits)
next
  fix v
  assume "getUserByEmail users e = Inr v"
  then show "password v = None"
    by (auto simp: getUserByEmail_def split: option.splits)
next
  fix v
  assume "v \<in> set (getAllUsers users f)"
  then show "password v = None"
    by (auto simp: getAllUsers_def Let_def split: if_splits)
next
  fix n m v users'
  assume "register_route bcrypt_hash now newId b users = (JsonUser n m v, users')"
  then show "password v = None" by (rule register_route_no_password)
qed

theorem password_never_returned_witness:
  "password testAccount = Some ''hash''
   \<and> getUserByEmail [testAccount] (Some ''john@example.com'')
       = Inr (testAccount\<lparr>password := None\<rparr>)
   \<and> password (testAccount\<lparr>password := None\<rparr>) = None
   \<and> getAllUsers [testAccount] None = [testAccount\<lparr>password := None\<rparr>]"
proof -
  have a: "getUserByEmail [testAccount] (Some ''john@example.com'')
       = Inr (testAccount\<lparr>password := None\<rparr>)"
    by (simp add: getUserByEmail_def testAccount_def)
  note t = password_never_returned[where users = "[testAccount]"
      and e = "Some ''john@example.com''"]
  note c = t[THEN conjunct2, THEN conjunct2, THEN conjunct2, THEN conjunct1, rule_format, OF a]
  from a c show ?thesis
    by (simp add: getAllUsers_def truthy_def testAccount_def)
qed

subsection \<open>C8: a failing confirmation mail\<close>

text \<open>
  C8. What \<^verbatim>\<open>registerForEvent\<close> returns to its caller, and the registrations it leaves
  in the store, are the same for any two behaviours of the mail transport, so the same
  whether the confirmation mail goes out or fails. When it returns a registration,
  either the transport has accepted a mail, or the event service has logged the error
  of the mail step, or the transporter had never been created and the mail module has
  logged that as a warning: a mail that the transport refuses leaves the error in the
  log and nothing else.
\<close>

theorem mail_failure_isolated:
  "fst (registerForEvent isValid smtp1 now newId rd s)
     = fst (registerForEvent isValid smtp2 now newId rd s)
   \<and> registrations (snd (registerForEvent isValid smtp1 now newId rd s))
       = registrations (snd (registerForEvent isValid smtp2 now newId rd s))
   \<and> (\<forall>r. fst (registerForEvent isValid smtp1 now newId rd s) = Inr r \<longrightarrow>
         (\<exists>m. outbox (snd (registerForEvent isValid smtp1 now newId rd s)) = outbox s @ [m]
               \<and> smtp1 m)
         \<or> (''event-service'', LError, ''Error sending registration confirmation email:'')
               \<in> set (logs (snd (registerForEvent isValid smtp1 now newId rd s)))
         \<or> (\<not> transporter s
             \<and> (''email-service'', LWarn, ''Email transporter not initialized'')
                   \<in> set (logs (snd (registerForEvent isValid smtp1 now newId rd s)))))"
proof (cases "find (\<lambda>r. eventId r = eventId rd \<and> studentEmail r = studentEmail rd)
                (registrations s)")
  case None
  from registerForEvent_fresh[OF None, of isValid smtp1 now newId]
  obtain s1 where s1: "registerForEvent isValid smtp1 now newId rd s
                  = (Inr (rd\<lparr>registeredAt := Some now, r_id := Some newId\<rparr>), s1)"
      "registrations s1 = registrations s @ [rd\<lparr>registeredAt := Some now, r_id := Some newId\<rparr>]"
      "(\<exists>m. outbox s1 = outbox s @ [m] \<and> smtp1 m)
        \<or> (''event-service'', LError, ''Error sending registration confirmation email:'')
              \<in> set (logs s1)
        \<or> (\<not> transporter s
            \<and> (''email-service'', LWarn, ''Email transporter not initialized'') \<in> set (logs s1))"
    by blast
  from registerForEvent_fresh[OF None, of isValid smtp2 now newId]
  obtain s2 where s2: "registerForEvent isValid smtp2 now newId rd s
                  = (Inr (rd\<lparr>registeredAt := Some now, r_id := Some newId\<rparr>), s2)"
      "registrations s2 = registrations s @ [rd\<lparr>registeredAt := Some now, r_id := Some newId\<rparr>]"
    by blast
  from s1 s2 show ?thesis by simp
next
  case (Some x)
  then show ?thesis by (simp add: registerForEvent_duplicate)
qed

text \<open>On the test state, with a transport that refuses every mail: the registration is
  returned as with a transport that accepts every mail, and the error is in the log.\<close>

theorem mail_failure_isolated_witness:
  "fst (registerForEvent hexString24 (\<lambda>m. False) 5 ''r1'' testRegistration testState)
     = Inr (testRegistration\<lparr>registeredAt := Some 5, r_id := Some ''r1''\<rparr>)
   \<and> fst (registerForEvent hexString24 (\<lambda>m. True) 5 ''r1'' testRegistration testState)
     = Inr (testRegistration\<lparr>registeredAt := Some 5, r_id := Some ''r1''\<rparr>)
   \<and> (''event-service'', LError, ''Error sending registration confirmation email:'')
       \<in> set (logs (snd (registerForEvent hexString24 (\<lambda>m. False) 5 ''r1''
                            testRegistration testState)))"
proof -
  note t = mail_failure_isolated[where isValid = hexString24 and ?smtp1.0 = "\<lambda>m. False"
      and ?smtp2.0 = "\<lambda>m. True" and now = 5 and newId = "''r1''" and rd = testRegistration
      and s = testState]
  have a: "fst (registerForEvent hexString24 (\<lambda>m. False) 5 ''r1'' testRegistration testState)
     = Inr (testRegistration\<lparr>registeredAt := Some 5, r_id := Some ''r1''\<rparr>)"
    by (simp add: testState_register)
  from t[THEN conjunct1] a
  have b: "fst (registerForEvent hexString24 (\<lambda>m. True) 5 ''r1'' testRegistration testState)
     = Inr (testRegistration\<lparr>registeredAt := Some 5, r_id := Some ''r1''\<rparr>)"
    by simp
  note d = t[THEN conjunct2, THEN conjunct2, rule_format, OF a]
  from d have c: "(''event-service'', LError, ''Error sending registration confirmation email:'')
       \<in> set (logs (snd (registerForEvent hexString24 (\<lambda>m. False) 5 ''r1''
                            testRegistration testState)))"
    by (simp add: testState_register testState_def)
  from a b c show ?thesis by (intro conjI)
qed

subsection \<open>C9: one registration per student and event\<close>

text \<open>
  C9. If the \<^verbatim>\<open>registrations\<close> collection already holds a document with the
  \<^verbatim>\<open>eventId\<close> and the \<^verbatim>\<open>studentEmail\<close> of the registration data, \<^verbatim>\<open>registerForEvent\<close>
  fails with the error \<^verbatim>\<open>You have already registered for this event\<close> (status 400) and
  leaves the whole state as it was. Otherwise it returns the registration data stamped
  with \<^verbatim>\<open>registeredAt\<close> and the inserted id, and the collection is the old one followed
  by exactly that document; events and feedback are untouched.
\<close>

theorem register_once:
  "(let (res, s') = registerForEvent isValid smtp now newId rd s;
        stored = rd\<lparr>registeredAt := Some now, r_id := Some newId\<rparr> in
    if \<exists>r \<in> set (registrations s). eventId r = eventId rd \<and> studentEmail r = studentEmail rd
    then res = Inl (AppError ''You have already registered for this event'' 400) \<and> s' = s
    else res = Inr stored \<and> registrations s' = registrations s @ [stored]
         \<and> events s' = events s \<and> feedbacks s' = feedbacks s)"
proof (cases "find (\<lambda>r. eventId r = eventId rd \<and> studentEmail r = studentEmail rd)
                (registrations s)")
  case None
  then have no: "\<not> (\<exists>r \<in> set (registrations s).
                      eventId r = eventId rd \<and> studentEmail r = studentEmail rd)"
    by (auto simp: find_None_iff)
  from registerForEvent_fresh[OF None, of isValid smtp now newId]
  obtain s1 where "registerForEvent isValid smtp now newId rd s
                  = (Inr (rd\<lparr>registeredAt := Some now, r_id := Some newId\<rparr>), s1)"
      "registrations s1 = registrations s @ [rd\<lparr>registeredAt := Some now, r_id := Some newId\<rparr>]"
      "events s1 = events s" "feedbacks s1 = feedbacks s"
    by blast
  with no show ?thesis by (simp add: Let_def)
next
  case (Some x)
  then have "find (\<lambda>r. eventId r = eventId rd \<and> studentEmail r = studentEmail rd)
               (registrations s) \<noteq> None"
    by simp
  then have yes: "\<exists>r \<in> set (registrations s).
                    eventId r = eventId rd \<and> studentEmail r = studentEmail rd"
    by (auto simp: find_None_iff)
  from registerForEvent_duplicate[OF Some, of isValid smtp now newId] yes
  show ?thesis by (simp add: Let_def)
qed

text \<open>The test student registers once; the same data on the resulting state is
  refused and the state stays.\<close>

theorem register_once_witness:
  "registrations (snd (registerForEvent hexString24 (\<lambda>m. False) 5 ''r1''
                         testRegistration testState))
     = [testRegistration\<lparr>registeredAt := Some 5, r_id := Some ''r1''\<rparr>]
   \<and> registerForEvent hexString24 (\<lambda>m. False) 9 ''r2'' testRegistration
        (testState\<lparr>registrations := [testRegistration\<lparr>registeredAt := Some 5, r_id := Some ''r1''\<rparr>]\<rparr>)
     = (Inl (AppError ''You have already registered for this event'' 400),
        testState\<lparr>registrations := [testRegistration\<lparr>registeredAt := Some 5, r_id := Some ''r1''\<rparr>]\<rparr>)"
proof -
  note t1 = register_once[where isValid = hexString24 and smtp = "\<lambda>m. False" and now = 5
      and newId = "''r1''" and rd = testRegistration and s = testState]
  note t2 = register_once[where isValid = hexString24 and smtp = "\<lambda>m. False" and now = 9
      and newId = "''r2''" and rd = testRegistration
      and s = "testState\<lparr>registrations :=
                 [testRegistration\<lparr>registeredAt := Some 5, r_id := Some ''r1''\<rparr>]\<rparr>"]
  from t1 have a: "registrations (snd (registerForEvent hexString24 (\<lambda>m. False) 5 ''r1''
                         testRegistration testState))
     = [testRegistration\<lparr>registeredAt := Some 5, r_id := Some ''r1''\<rparr>]"
    by (simp add: testState_def split_beta Let_def)
  from t2 have b: "registerForEvent hexString24 (\<lambda>m. False) 9 ''r2'' testRegistration
        (testState\<lparr>registrations := [testRegistration\<lparr>registeredAt := Some 5, r_id := Some ''r1''\<rparr>]\<rparr>)
     = (Inl (AppError ''You have already registered for this event'' 400),
        testState\<lparr>registrations := [testRegistration\<lparr>registeredAt := Some 5, r_id := Some ''r1''\<rparr>]\<rparr>)"
    by (simp add: split_beta Let_def prod_eq_iff)
  from a b show ?thesis by (intro conjI)
qed

subsection \<open>C10: roles at the registration endpoint\<close>

text \<open>
  The part of the endpoint's checks that is about the role named in the request: a
  role other than \<^verbatim>\<open>student\<close> and \<^verbatim>\<open>organizer\<close> is answered with status 400, so is the
  role \<^verbatim>\<open>student\<close> named without a student id, and an account that is created has one
  of the two roles.
\<close>

lemma register_route_rejects_role:
  assumes "truthy (u_role b)" and "u_role b \<noteq> Some ''student''" and "u_role b \<noteq> Some ''organizer''"
  shows "status (fst (register_route bcrypt_hash now newId b users)) = 400
       \<and> snd (register_route bcrypt_hash now newId b users) = users"
  using assms
  by (cases "u_role b") (simp_all add: register_route_def roles_includes_def validRoles_def)

lemma register_route_rejects_student_without_id:
  assumes "u_role b = Some ''student''" and "\<not> truthy (studentId b)"
  shows "status (fst (register_route bcrypt_hash now newId b users)) = 400
       \<and> snd (register_route bcrypt_hash now newId b users) = users"
  using assms
  by (simp add: register_route_def roles_includes_def validRoles_def)

lemma register_route_accounts:
  "snd (register_route bcrypt_hash now newId b users) = users
   \<or> (\<exists>acc. snd (register_route bcrypt_hash now newId b users) = users @ [acc]
          \<and> (u_role acc = Some ''student'' \<or> u_role acc = Some ''organizer'')
          \<and> (\<not> truthy (u_role b) \<longrightarrow> u_role acc = Some ''student'')
          \<and> (\<exists>v. fst (register_route bcrypt_hash now newId b users)
                     = JsonUser 201 ''User registered successfully'' v
                   \<and> u_role v = u_role acc))"
proof (cases "truthy (name b) \<and> truthy (u_email b) \<and> truthy (password b)
              \<and> (truthy (u_role b) \<longrightarrow> roles_includes validRoles (u_role b))
              \<and> \<not> (u_role b = Some ''student'' \<and> \<not> truthy (studentId b))")
  case False
  then have "snd (register_route bcrypt_hash now newId b users) = users"
    by (auto simp: register_route_def)
  then show ?thesis by simp
next
  case True
  then obtain pw where pw: "password b = Some pw"
    by (cases "password b") (simp_all add: truthy_def)
  from True have valid: "truthy (u_role b) \<longrightarrow>
      u_role b = Some ''student'' \<or> u_role b = Some ''organizer''"
    by (cases "u_role b") (auto simp: roles_includes_def validRoles_def)
  show ?thesis
  proof (cases "find (\<lambda>x. u_email x = u_email b) users")
    case (Some existing)
    with True pw have "snd (register_route bcrypt_hash now newId b users) = users"
      by (simp add: register_route_def register_def)
    then show ?thesis by simp
  next
    case None
    with True pw valid show ?thesis
      by (auto simp: register_route_def register_def Let_def)
  qed
qed

text \<open>
  C10. The endpoint does not reject every student registration without a student id.
  It asks for the student id only when the request itself names the role \<^verbatim>\<open>student\<close>,
  before the role defaults to \<^verbatim>\<open>student\<close>: the registration request of the API
  document, sent without role and without student id, is answered 201 and creates a
  student account without student id, where the same request naming the role
  \<^verbatim>\<open>student\<close> is answered with status 400 and \<^verbatim>\<open>Student ID is required for student
  accounts\<close>. A student id sent without a role is dropped.
\<close>

theorem default_student_registered_without_studentId:
  "register_route (\<lambda>p. ''hashed:'' @ p) 3 ''u1'' testBody []
     = (JsonUser 201 ''User registered successfully''
          (testBody\<lparr>u_id := Some ''u1'', password := None, u_role := Some ''student'',
                     u_createdAt := Some 3, u_updatedAt := Some 3\<rparr>),
        [testBody\<lparr>u_id := Some ''u1'', password := Some ''hashed:password123'',
                   u_role := Some ''student'', u_createdAt := Some 3, u_updatedAt := Some 3\<rparr>])
   \<and> studentId (testBody\<lparr>u_id := Some ''u1'', password := Some ''hashed:password123'',
                   u_role := Some ''student'', u_createdAt := Some 3, u_updatedAt := Some 3\<rparr>)
       = None
   \<and> register_route (\<lambda>p. ''hashed:'' @ p) 3 ''u1''
        (testBody\<lparr>studentId := Some ''STU123456''\<rparr>) []
     = register_route (\<lambda>p. ''hashed:'' @ p) 3 ''u1'' testBody []
   \<and> register_route (\<lambda>p. ''hashed:'' @ p) 3 ''u1''
        (testBody\<lparr>u_role := Some ''student''\<rparr>) []
     = (Json 400 ''Student ID is required for student accounts'', [])"
  by (simp add: register_route_def register_def truthy_def roles_includes_def validRoles_def
        testBody_def Let_def)

text \<open>What the caller sees of it: the status 201, and one account in the collection, a
  student without student id.\<close>

theorem default_student_registered_without_studentId_witness:
  "status (fst (register_route (\<lambda>p. ''hashed:'' @ p) 3 ''u1'' testBody [])) = 201
   \<and> map u_role (snd (register_route (\<lambda>p. ''hashed:'' @ p) 3 ''u1'' testBody []))
       = [Some ''student'']
   \<and> map studentId (snd (register_route (\<lambda>p. ''hashed:'' @ p) 3 ''u1'' testBody []))
       = [None]"
  using default_student_registered_without_studentId[THEN conjunct1]
  by (simp add: testBody_def)

end
